theory Spec2Isabelle
  imports Complex_Main "HOL-Library.Multiset" "HOL-Library.Log_Nat"
begin

section \<open>Floats\<close>

text \<open>
  A Python float is an IEEE 754 binary64 value. \<open>Fin q\<close> is the finite double whose value
  is the rational \<open>q\<close>, with \<open>Fin 0\<close> for \<open>0.0\<close>; \<open>NegZero\<close> is \<open>-0.0\<close>. The operations
  below return the correctly rounded result (round to nearest, ties to even), as the
  hardware does.
\<close>

datatype double = Fin rat | NegZero | PosInf | NegInf | NaN

text \<open>The exception classes that reach the handlers' \<^verbatim>\<open>except\<close> clauses.\<close>

datatype exn =
  TypeError | AttributeError | ValueError | OverflowError | OperationalError | HTTPException

text \<open>
  For \<open>x > 0\<close>, the exponent \<open>e\<close> with \<open>2 ^ e \<le> x < 2 ^ (e + 1)\<close>, found from the bit
  lengths of numerator and denominator.
\<close>

definition exponent :: "rat \<Rightarrow> int" where
  "exponent x =
     (let (p, q) = quotient_of x; k = bitlen p - bitlen q
      in if 2 powi k \<le> x then k else k - 1)"

text \<open>The nearest integer, a tie going to the even one.\<close>

definition round_half_even :: "rat \<Rightarrow> int" where
  "round_half_even y =
     (let f = \<lfloor>y\<rfloor>; d = y - of_int f
      in if d < 1 / 2 then f
         else if 1 / 2 < d then f + 1
         else if even f then f else f + 1)"

text \<open>
  For \<open>x > 0\<close>, the multiple of the spacing of the doubles around \<open>x\<close> that is nearest to
  \<open>x\<close>: 53 significant bits, and a fixed spacing of \<open>2 ^ -1074\<close> below \<open>2 ^ -1022\<close>.
\<close>

definition nearest :: "rat \<Rightarrow> rat" where
  "nearest x =
     (let e = max (exponent x) (- 1022); q = 2 powi (e - 52)
      in of_int (round_half_even (x / q)) * q)"

text \<open>
  The double for the exact result \<open>x\<close> of an operation: an infinity from \<open>2 ^ 1024\<close> on,
  a signed zero when \<open>x\<close> is too small.
\<close>

definition to_double :: "rat \<Rightarrow> double" where
  "to_double x =
     (let m = nearest \<bar>x\<bar>
      in if 2 ^ 1024 \<le> m then (if 0 < x then PosInf else NegInf)
         else if m = 0 then (if 0 \<le> x then Fin 0 else NegZero)
         else Fin (if 0 < x then m else - m))"

definition is_inf :: "double \<Rightarrow> bool" where
  "is_inf a \<longleftrightarrow> a = PosInf \<or> a = NegInf"

definition is_zero :: "double \<Rightarrow> bool" where
  "is_zero a \<longleftrightarrow> a = Fin 0 \<or> a = NegZero"

text \<open>The sign bit.\<close>

fun negative :: "double \<Rightarrow> bool" where
  "negative (Fin x) = (x < 0)"
| "negative NegZero = True"
| "negative NegInf = True"
| "negative _ = False"

fun finite_value :: "double \<Rightarrow> rat" where
  "finite_value (Fin x) = x"
| "finite_value _ = 0"

text \<open>\<^verbatim>\<open>a * b\<close> on floats.\<close>

definition fmul :: "double \<Rightarrow> double \<Rightarrow> double" where
  "fmul a b =
     (if a = NaN \<or> b = NaN then NaN
      else if is_inf a \<or> is_inf b
      then (if is_zero a \<or> is_zero b then NaN
            else if negative a \<noteq> negative b then NegInf else PosInf)
      else let p = finite_value a * finite_value b
           in if p = 0 then (if negative a \<noteq> negative b then NegZero else Fin 0)
              else to_double p)"

text \<open>\<^verbatim>\<open>a + b\<close> on floats.\<close>

definition fadd :: "double \<Rightarrow> double \<Rightarrow> double" where
  "fadd a b =
     (if a = NaN \<or> b = NaN then NaN
      else if is_inf a then (if is_inf b \<and> a \<noteq> b then NaN else a)
      else if is_inf b then b
      else let s = finite_value a + finite_value b
           in if s = 0 then (if a = NegZero \<and> b = NegZero then NegZero else Fin 0)
              else to_double s)"

text \<open>
  \<^verbatim>\<open>round(x, 2)\<close> on a float: the value is rounded to two decimals, a tie going to the
  even hundredth, and the decimal result is converted back to the nearest double, with
  the sign of \<open>x\<close>; NaN and the infinities round to themselves.
\<close>

fun py_round2 :: "double \<Rightarrow> double" where
  "py_round2 (Fin x) =
     (let r = of_int (round_half_even (\<bar>x\<bar> * 100)) / 100
      in if r = 0 then (if x < 0 then NegZero else Fin 0)
         else to_double (if x < 0 then - r else r))"
| "py_round2 d = d"

text \<open>The comparisons of a float with \<open>0\<close>: \<^verbatim>\<open>x <= 0\<close>, \<^verbatim>\<open>x < 0\<close> and \<^verbatim>\<open>x > 0\<close>.\<close>

fun float_le0 :: "double \<Rightarrow> bool" where
  "float_le0 (Fin x) = (x \<le> 0)"
| "float_le0 NegZero = True"
| "float_le0 NegInf = True"
| "float_le0 _ = False"

fun float_lt0 :: "double \<Rightarrow> bool" where
  "float_lt0 (Fin x) = (x < 0)"
| "float_lt0 NegInf = True"
| "float_lt0 _ = False"


text \<open>
  The conversion of an int to a float: the nearest double, and OverflowError when that
  would be \<open>2 ^ 1024\<close> or more.
\<close>

definition float_of_int :: "int \<Rightarrow> exn + double" where
  "float_of_int i =
     (if i = 0 then Inr (Fin 0)
      else let m = nearest (of_int \<bar>i\<bar>)
           in if 2 ^ 1024 \<le> m then Inl OverflowError
              else Inr (Fin (if 0 < i then m else - m)))"

section \<open>Values\<close>

text \<open>
  The objects that \<^verbatim>\<open>request.get_json()\<close> hands to a handler. A dict is an association
  list read with \<open>map_of\<close>; a Python int is an integer of any size.
\<close>

datatype json =
    JNull
  | JBool bool
  | JInt int
  | JFloat double
  | JStr string
  | JList "json list"
  | JDict "(string \<times> json) list"

text \<open>Python's truth value of an object, as tested by \<^verbatim>\<open>if not data\<close>.\<close>

fun truthy :: "json \<Rightarrow> bool" where
  "truthy JNull = False"
| "truthy (JBool b) = b"
| "truthy (JInt i) = (i \<noteq> 0)"
| "truthy (JFloat r) = (\<not> is_zero r)"
| "truthy (JStr s) = (s \<noteq> [])"
| "truthy (JList xs) = (xs \<noteq> [])"
| "truthy (JDict kvs) = (kvs \<noteq> [])"

text \<open>\<^verbatim>\<open>data.get(key, default)\<close>: only a dict has the method.\<close>

fun dict_get :: "json \<Rightarrow> string \<Rightarrow> json \<Rightarrow> exn + json" where
  "dict_get (JDict kvs) k d = Inr (case map_of kvs k of None \<Rightarrow> d | Some v \<Rightarrow> v)"
| "dict_get _ k d = Inl AttributeError"

text \<open>
  \<^verbatim>\<open>v <= 0\<close>: a TypeError unless \<open>v\<close> is a number; \<^verbatim>\<open>True\<close> and \<^verbatim>\<open>False\<close> are
  the ints 1 and 0, and an int is compared exactly.
\<close>

fun le_zero :: "json \<Rightarrow> exn + bool" where
  "le_zero (JBool b) = Inr (\<not> b)"
| "le_zero (JInt i) = Inr (i \<le> 0)"
| "le_zero (JFloat r) = Inr (float_le0 r)"
| "le_zero _ = Inl TypeError"

text \<open>
  The operand \<open>v\<close> of \<^verbatim>\<open>coefficient * v\<close>, where the coefficient is a float: Python
  converts an int to a float first; anything but a number is a TypeError. The same
  conversion gives the value that a \<^verbatim>\<open>db.Float\<close> column holds.
\<close>

fun to_float :: "json \<Rightarrow> exn + double" where
  "to_float (JBool b) = Inr (Fin (if b then 1 else 0))"
| "to_float (JInt i) = float_of_int i"
| "to_float (JFloat r) = Inr r"
| "to_float _ = Inl TypeError"

text \<open>
  \<^verbatim>\<open>s.strip()\<close>: only a str has the method. Strings are lists of code points below 256;
  the whitespace among them is what \<^verbatim>\<open>str.isspace\<close> accepts there.
\<close>

definition is_space :: "char \<Rightarrow> bool" where
  "is_space c \<longleftrightarrow> c \<in> set [CHR 0x09, CHR 0x0A, CHR 0x0B, CHR 0x0C, CHR 0x0D,
     CHR 0x1C, CHR 0x1D, CHR 0x1E, CHR 0x1F, CHR 0x20, CHR 0x85, CHR 0xA0]"

definition strip :: "string \<Rightarrow> string" where
  "strip s = rev (dropWhile is_space (rev (dropWhile is_space s)))"

fun py_strip :: "json \<Rightarrow> exn + string" where
  "py_strip (JStr s) = Inr (strip s)"
| "py_strip _ = Inl AttributeError"

section \<open>The store\<close>

record DeliveryCoefficients =
  coefficients_id :: nat
  distance_coefficient :: double
  weight_coefficient :: double
  base_cost :: double
  updated_at :: nat

record ContactSubmission =
  submission_id :: nat
  name :: string
  email :: string
  phone :: "string option"
  message :: string
  submitted_at :: nat

record DeliveryCalculation =
  calculation_id :: nat
  distance :: double
  weight :: double
  calculated_cost :: double
  calculated_at :: nat

record tables =
  delivery_coefficients :: "DeliveryCoefficients list"
  contact_submissions :: "ContactSubmission list"
  delivery_calculations :: "DeliveryCalculation list"

text \<open>
  The database: \<open>None\<close> while the tables have not been created (nothing but
  \<^verbatim>\<open>init-db\<close> creates them, all three at once), otherwise the rows of each table in
  insertion order. A query or a commit against a store without tables raises, which the
  handlers' \<^verbatim>\<open>except Exception\<close> clauses catch. Timestamps are natural numbers
  supplied by the caller in place of \<^verbatim>\<open>datetime.utcnow()\<close>.
\<close>

type_synonym store = "tables option"

definition empty_tables :: tables where
  "empty_tables = \<lparr>delivery_coefficients = [], contact_submissions = [],
     delivery_calculations = []\<rparr>"

definition drop_all :: "store \<Rightarrow> store" where
  "drop_all db = None"

definition create_all :: "store \<Rightarrow> store" where
  "create_all db = (case db of None \<Rightarrow> Some empty_tables | Some t \<Rightarrow> Some t)"

text \<open>The next primary key of a table whose keys are \<open>ids\<close>.\<close>

definition next_id :: "nat list \<Rightarrow> nat" where
  "next_id ids = Suc (fold max ids 0)"

text \<open>\<^verbatim>\<open>DeliveryCoefficients.query.first()\<close>\<close>

definition first_coefficients :: "store \<Rightarrow> exn + DeliveryCoefficients option" where
  "first_coefficients db =
     (case db of
        None \<Rightarrow> Inl OperationalError
      | Some t \<Rightarrow> Inr (case delivery_coefficients t of [] \<Rightarrow> None | c # _ \<Rightarrow> Some c))"

text \<open>\<^verbatim>\<open>db.session.add(DeliveryCoefficients(...)); db.session.commit()\<close>\<close>

definition add_coefficients ::
  "nat \<Rightarrow> store \<Rightarrow> double \<Rightarrow> double \<Rightarrow> double \<Rightarrow> exn + store" where
  "add_coefficients now db dc wc bc =
     (case db of
        None \<Rightarrow> Inl OperationalError
      | Some t \<Rightarrow>
          Inr (Some (t\<lparr>delivery_coefficients := delivery_coefficients t @
            [\<lparr>coefficients_id = next_id (map coefficients_id (delivery_coefficients t)),
              distance_coefficient = dc, weight_coefficient = wc, base_cost = bc,
              updated_at = now\<rparr>]\<rparr>)))"

text \<open>The in-place update of the first row, committed.\<close>

definition set_coefficients ::
  "nat \<Rightarrow> store \<Rightarrow> double \<Rightarrow> double \<Rightarrow> double \<Rightarrow> exn + store" where
  "set_coefficients now db dc wc bc =
     (case db of
        None \<Rightarrow> Inl OperationalError
      | Some t \<Rightarrow>
          (case delivery_coefficients t of
             [] \<Rightarrow> Inr (Some t)
           | c # cs \<Rightarrow>
               Inr (Some (t\<lparr>delivery_coefficients :=
                 c\<lparr>distance_coefficient := dc, weight_coefficient := wc, base_cost := bc,
                   updated_at := now\<rparr> # cs\<rparr>))))"

text \<open>\<^verbatim>\<open>db.session.add(DeliveryCalculation(...)); db.session.commit()\<close>\<close>

definition add_calculation ::
  "nat \<Rightarrow> store \<Rightarrow> double \<Rightarrow> double \<Rightarrow> double \<Rightarrow> exn + store" where
  "add_calculation now db d w cost =
     (case db of
        None \<Rightarrow> Inl OperationalError
      | Some t \<Rightarrow>
          Inr (Some (t\<lparr>delivery_calculations := delivery_calculations t @
            [\<lparr>calculation_id = next_id (map calculation_id (delivery_calculations t)),
              distance = d, weight = w, calculated_cost = cost, calculated_at = now\<rparr>]\<rparr>)))"

text \<open>
  \<^verbatim>\<open>db.session.add(ContactSubmission(...)); db.session.commit()\<close>, with the new row's
  primary key.
\<close>

definition add_submission ::
  "nat \<Rightarrow> store \<Rightarrow> string \<Rightarrow> string \<Rightarrow> string option \<Rightarrow> string \<Rightarrow> exn + store \<times> nat" where
  "add_submission now db n e p m =
     (case db of
        None \<Rightarrow> Inl OperationalError
      | Some t \<Rightarrow>
          (let i = next_id (map submission_id (contact_submissions t))
           in Inr (Some (t\<lparr>contact_submissions := contact_submissions t @
                [\<lparr>submission_id = i, name = n, email = e, phone = p, message = m,
                  submitted_at = now\<rparr>]\<rparr>), i)))"

text \<open>
  \<^verbatim>\<open>query.order_by(column.desc())\<close>: most recent first; rows with equal timestamps
  keep their insertion order.
\<close>

definition order_by_desc :: "('a \<Rightarrow> nat) \<Rightarrow> 'a list \<Rightarrow> 'a list" where
  "order_by_desc col rows = sort_key (\<lambda>r. - int (col r)) rows"

record 'a pagination =
  items :: "'a list"
  page :: int
  per_page :: nat
  total :: nat

text \<open>
  \<^verbatim>\<open>paginate(page=page, per_page=n, error_out=False)\<close>: a page below 1 is read as
  page 1, and a page beyond the last one is empty. The offset is sent to the database as
  a 64-bit integer, and the query raises when it does not fit.
\<close>

definition paginate :: "'a list \<Rightarrow> int \<Rightarrow> nat \<Rightarrow> exn + 'a pagination" where
  "paginate rows p n =
     (let p' = (if p < 1 then 1 else p); offset = (p' - 1) * int n
      in if 2 ^ 63 \<le> offset then Inl OverflowError
         else Inr \<lparr>items = take n (drop (nat offset) rows), page = p', per_page = n,
                  total = length rows\<rparr>)"

section \<open>Responses\<close>

text \<open>
  A message: a literal, or the f-string \<^verbatim>\<open>f"{prefix}{e}{suffix}"\<close> around the text of a
  caught exception.
\<close>

datatype msg = Text string | Fmt string exn string

type_synonym flash = "msg \<times> string"

datatype template_context =
    Index
  | Dashboard "DeliveryCoefficients option" "DeliveryCalculation list" "ContactSubmission list"
  | Calculations "DeliveryCalculation pagination option"
  | Contacts "ContactSubmission pagination option"

text \<open>
  \<open>Json s b\<close> is \<^verbatim>\<open>jsonify(b), s\<close>; \<open>JsonError s m\<close> is
  \<^verbatim>\<open>jsonify({'error': m}), s\<close>; \<open>Redirect e fs\<close> is
  \<^verbatim>\<open>redirect(url_for(e))\<close> after the flashes \<open>fs\<close>; \<open>Rendered t c fs\<close> is
  \<^verbatim>\<open>render_template(t, ...)\<close> with the context \<open>c\<close> after the flashes \<open>fs\<close>.
\<close>

datatype response =
    Json nat json
  | JsonError nat msg
  | Redirect string "flash list"
  | Rendered string template_context "flash list"

fun status :: "response \<Rightarrow> nat" where
  "status (Json s b) = s"
| "status (JsonError s m) = s"
| "status (Redirect e fs) = 302"
| "status (Rendered t c fs) = 200"

section \<open>Exceptions\<close>

text \<open>
  A statement that may raise is a value of \<open>exn + 'a\<close>; \<open>and_then m f\<close> runs \<open>f\<close> on
  the result of \<open>m\<close>, or passes on the exception that \<open>m\<close> raised.
\<close>

definition and_then :: "exn + 'a \<Rightarrow> ('a \<Rightarrow> exn + 'b) \<Rightarrow> exn + 'b" where
  "and_then m f = (case m of Inl e \<Rightarrow> Inl e | Inr x \<Rightarrow> f x)"

section \<open>The initialisation command\<close>

text \<open>
  \<^verbatim>\<open>init_db_command\<close>: drops every table, creates them again and seeds the default
  coefficients when the table holds none. The result is the new store and the lines echoed,
  or the exception that ended the command.
\<close>

definition init_db_command :: "nat \<Rightarrow> store \<Rightarrow> store \<times> (exn + string list)" where
  "init_db_command now db =
     (let db1 = create_all (drop_all db)
      in case first_coefficients db1 of
           Inl e \<Rightarrow> (db1, Inl e)
         | Inr None \<Rightarrow>
             (case add_coefficients now db1 (Fin 0.5) (Fin 0.5) (Fin 5.0) of
                Inl e \<Rightarrow> (db1, Inl e)
              | Inr db2 \<Rightarrow>
                  (db2, Inr [''Initialized the database with default coefficients.'',
                             ''Database initialized successfully.'']))
         | Inr (Some c) \<Rightarrow>
             (db1, Inr [''Database already initialized with coefficients. Skipping default insertion.'',
                        ''Database initialized successfully.'']))"

section \<open>API routes\<close>

text \<open>
  Each handler takes what it reads from the request and the store, and returns the store
  after the request and the response. The argument \<open>request_json\<close> is the outcome of
  \<^verbatim>\<open>request.get_json()\<close>: the parsed body, or the exception it raised. The body of a
  \<^verbatim>\<open>try\<close> block is a function into \<open>exn + _\<close>, and the handler maps \<open>Inl e\<close> to what
  its \<^verbatim>\<open>except\<close> clause returns; an exception leaves the store as it was, since every
  write is the last statement before the response.
\<close>

text \<open>\<^verbatim>\<open>distance <= 0 or weight <= 0\<close>: the right operand is evaluated only when the left is false.\<close>

definition not_positive :: "json \<Rightarrow> json \<Rightarrow> exn + bool" where
  "not_positive distance' weight' =
     and_then (le_zero distance') (\<lambda>b. if b then Inr True else le_zero weight')"

definition calculate_delivery_try :: "nat \<Rightarrow> store \<Rightarrow> exn + json \<Rightarrow> exn + store \<times> response" where
  "calculate_delivery_try now db request_json =
     and_then request_json (\<lambda>data.
     if \<not> truthy data then Inr (db, JsonError 400 (Text ''No data provided''))
     else
     and_then (dict_get data ''distance'' JNull) (\<lambda>distance'.
     and_then (dict_get data ''weight'' JNull) (\<lambda>weight'.
     if distance' = JNull \<or> weight' = JNull
     then Inr (db, JsonError 400 (Text ''Distance and weight are required''))
     else
     and_then (not_positive distance' weight') (\<lambda>nonpositive.
     if nonpositive
     then Inr (db, JsonError 400 (Text ''Distance and weight must be positive values''))
     else
     and_then (first_coefficients db) (\<lambda>found.
     case found of
       None \<Rightarrow>
         Inr (db, JsonError 500
           (Text ''Delivery coefficients not configured. Please initialize the database.''))
     | Some coeffs \<Rightarrow>
     and_then (to_float distance') (\<lambda>d.
     and_then (to_float weight') (\<lambda>w.
     let cost = py_round2
           (fadd (fadd (base_cost coeffs) (fmul (distance_coefficient coeffs) d))
              (fmul (weight_coefficient coeffs) w))
     in
     and_then (add_calculation now db d w cost) (\<lambda>db'.
     Inr (db', Json 200 (JDict
       [(''success'', JBool True),
        (''cost'', JFloat cost),
        (''distance'', distance'),
        (''weight'', weight'),
        (''coefficients_used'', JDict
           [(''distance_coefficient'', JFloat (distance_coefficient coeffs)),
            (''weight_coefficient'', JFloat (weight_coefficient coeffs)),
            (''base_cost'', JFloat (base_cost coeffs))])]))))))))))"

definition calculate_delivery :: "nat \<Rightarrow> store \<Rightarrow> exn + json \<Rightarrow> store \<times> response" where
  "calculate_delivery now db request_json =
     (case calculate_delivery_try now db request_json of
        Inl e \<Rightarrow> (db, JsonError 500 (Fmt ''Calculation failed: '' e []))
      | Inr r \<Rightarrow> r)"

text \<open>The basic email validation: the condition under which the handler rejects.\<close>

definition invalid_email :: "string \<Rightarrow> bool" where
  "invalid_email e \<longleftrightarrow> CHR ''@'' \<notin> set e \<or> CHR ''.'' \<notin> set e"

text \<open>\<^verbatim>\<open>data.get(key, '').strip()\<close>\<close>

definition get_stripped :: "json \<Rightarrow> string \<Rightarrow> exn + string" where
  "get_stripped data k = and_then (dict_get data k (JStr [])) py_strip"

definition submit_contact_try :: "nat \<Rightarrow> store \<Rightarrow> exn + json \<Rightarrow> exn + store \<times> response" where
  "submit_contact_try now db request_json =
     and_then request_json (\<lambda>data.
     if \<not> truthy data then Inr (db, JsonError 400 (Text ''No data provided''))
     else
     and_then (get_stripped data ''name'') (\<lambda>name'.
     and_then (get_stripped data ''email'') (\<lambda>email'.
     and_then (get_stripped data ''phone'') (\<lambda>phone'.
     and_then (get_stripped data ''message'') (\<lambda>message'.
     if name' = [] \<or> email' = [] \<or> message' = []
     then Inr (db, JsonError 400 (Text ''Name, email, and message are required''))
     else if invalid_email email'
     then Inr (db, JsonError 400 (Text ''Please provide a valid email address''))
     else
     and_then (add_submission now db name' email'
                 (if phone' \<noteq> [] then Some phone' else None) message') (\<lambda>(db', new_id).
     Inr (db', Json 200 (JDict
       [(''success'', JBool True),
        (''message'', JStr (''Thank you for your message! We'' @ [CHR 0x27] @
           ''ll get back to you soon.'')),
        (''submission_id'', JInt (int new_id))]))))))))"

definition submit_contact :: "nat \<Rightarrow> store \<Rightarrow> exn + json \<Rightarrow> store \<times> response" where
  "submit_contact now db request_json =
     (case submit_contact_try now db request_json of
        Inl e \<Rightarrow> (db, JsonError 500 (Fmt ''Failed to submit contact form: '' e []))
      | Inr r \<Rightarrow> r)"

text \<open>
  \<^verbatim>\<open>DeliveryCoefficients.to_dict\<close>; \<open>isoformat\<close> stands for
  \<^verbatim>\<open>datetime.isoformat\<close> on the model's timestamps.
\<close>

definition to_dict :: "(nat \<Rightarrow> string) \<Rightarrow> DeliveryCoefficients \<Rightarrow> json" where
  "to_dict isoformat c = JDict
     [(''id'', JInt (int (coefficients_id c))),
      (''distance_coefficient'', JFloat (distance_coefficient c)),
      (''weight_coefficient'', JFloat (weight_coefficient c)),
      (''base_cost'', JFloat (base_cost c)),
      (''updated_at'', JStr (isoformat (updated_at c)))]"

definition get_coefficients :: "(nat \<Rightarrow> string) \<Rightarrow> store \<Rightarrow> response" where
  "get_coefficients isoformat db =
     (case first_coefficients db of
        Inl e \<Rightarrow> JsonError 500 (Fmt ''Failed to get coefficients: '' e [])
      | Inr None \<Rightarrow>
          JsonError 404 (Text ''No coefficients found. Please initialize the database.'')
      | Inr (Some coeffs) \<Rightarrow>
          Json 200 (JDict [(''success'', JBool True),
                           (''coefficients'', to_dict isoformat coeffs)]))"

section \<open>Admin routes\<close>

text \<open>\<^verbatim>\<open>Model.query\<close> on one table: the rows, or the exception of a store without tables.\<close>

definition query :: "(tables \<Rightarrow> 'a list) \<Rightarrow> store \<Rightarrow> exn + 'a list" where
  "query table db = (case db of None \<Rightarrow> Inl OperationalError | Some t \<Rightarrow> Inr (table t))"

definition admin_dashboard :: "store \<Rightarrow> response" where
  "admin_dashboard db =
     (case and_then (first_coefficients db) (\<lambda>coeffs.
           and_then (query delivery_calculations db) (\<lambda>calculations.
           and_then (query contact_submissions db) (\<lambda>contacts.
           Inr (coeffs, take 10 (order_by_desc calculated_at calculations),
                take 10 (order_by_desc submitted_at contacts))))) of
        Inl e \<Rightarrow>
          Rendered ''admin.html'' (Dashboard None [] [])
            [(Fmt ''Error loading dashboard data: '' e
                ''. Please ensure the database is initialized.'', ''danger'')]
      | Inr (coeffs, recent_calculations, recent_contacts) \<Rightarrow>
          Rendered ''admin.html'' (Dashboard coeffs recent_calculations recent_contacts) [])"

text \<open>
  \<^verbatim>\<open>float(request.form.get(key, default))\<close>. The form is an association list of
  strings; \<open>float\<close> stands for Python's conversion of a string, \<open>None\<close> where it raises
  ValueError. An absent field takes the default, which is a float already.
\<close>

definition form_float ::
  "(string \<Rightarrow> double option) \<Rightarrow> (string \<times> string) list \<Rightarrow> string \<Rightarrow> double \<Rightarrow> exn + double" where
  "form_float float form k d =
     (case map_of form k of
        None \<Rightarrow> Inr d
      | Some s \<Rightarrow> (case float s of None \<Rightarrow> Inl ValueError | Some x \<Rightarrow> Inr x))"

definition update_coefficients_try ::
  "(string \<Rightarrow> double option) \<Rightarrow> nat \<Rightarrow> store \<Rightarrow> (string \<times> string) list \<Rightarrow> exn + store \<times> flash list" where
  "update_coefficients_try float now db form =
     and_then (form_float float form ''distance_coefficient'' (Fin 0.5)) (\<lambda>distance_coeff.
     and_then (form_float float form ''weight_coefficient'' (Fin 0.5)) (\<lambda>weight_coeff.
     and_then (form_float float form ''base_cost'' (Fin 5.0)) (\<lambda>base_cost'.
     if float_lt0 distance_coeff \<or> float_lt0 weight_coeff \<or> float_lt0 base_cost'
     then Inr (db, [(Text ''All coefficients must be positive values'', ''error'')])
     else
     and_then (first_coefficients db) (\<lambda>coeffs.
     and_then (case coeffs of
                 Some c \<Rightarrow> set_coefficients now db distance_coeff weight_coeff base_cost'
               | None \<Rightarrow> add_coefficients now db distance_coeff weight_coeff base_cost') (\<lambda>db'.
     Inr (db', [(Text ''Coefficients updated successfully!'', ''success'')]))))))"

definition update_coefficients ::
  "(string \<Rightarrow> double option) \<Rightarrow> nat \<Rightarrow> store \<Rightarrow> (string \<times> string) list \<Rightarrow> store \<times> response" where
  "update_coefficients float now db form =
     (case update_coefficients_try float now db form of
        Inr (db', flashes) \<Rightarrow> (db', Redirect ''admin_dashboard'' flashes)
      | Inl e \<Rightarrow>
          (db, Redirect ''admin_dashboard''
            [(if e = ValueError then Text ''Please enter valid numeric values''
              else Fmt ''Error updating coefficients: '' e [], ''error'')]))"

text \<open>
  \<^verbatim>\<open>request.args.get('page', 1, type=int)\<close>: the argument \<open>page_arg\<close> is the converted
  query parameter, \<open>None\<close> when it is absent or not an integer.
\<close>

definition page_or_default :: "int option \<Rightarrow> int" where
  "page_or_default page_arg = (case page_arg of None \<Rightarrow> 1 | Some p \<Rightarrow> p)"

definition admin_calculations :: "store \<Rightarrow> int option \<Rightarrow> response" where
  "admin_calculations db page_arg =
     (case and_then (query delivery_calculations db) (\<lambda>rows.
           paginate (order_by_desc calculated_at rows) (page_or_default page_arg) 20) of
        Inl e \<Rightarrow>
          Rendered ''calculations.html'' (Calculations None)
            [(Fmt ''Error loading calculations data: '' e
                ''. Please ensure the database is initialized.'', ''danger'')]
      | Inr calculations \<Rightarrow>
          Rendered ''calculations.html'' (Calculations (Some calculations)) [])"

definition admin_contacts :: "store \<Rightarrow> int option \<Rightarrow> response" where
  "admin_contacts db page_arg =
     (case and_then (query contact_submissions db) (\<lambda>rows.
           paginate (order_by_desc submitted_at rows) (page_or_default page_arg) 20) of
        Inl e \<Rightarrow>
          Rendered ''contacts.html'' (Contacts None)
            [(Fmt ''Error loading contacts data: '' e
                ''. Please ensure the database is initialized.'', ''danger'')]
      | Inr contacts \<Rightarrow>
          Rendered ''contacts.html'' (Contacts (Some contacts)) [])"

section \<open>The remaining routes and the dispatch\<close>

definition index :: response where
  "index = Rendered ''index.html'' Index []"

text \<open>\<open>probe\<close> tells whether the connectivity query of the health check succeeded.\<close>

definition health_check :: "(nat \<Rightarrow> string) \<Rightarrow> nat \<Rightarrow> bool \<Rightarrow> response" where
  "health_check isoformat now probe =
     Json 200 (JDict
       [(''status'', JStr ''healthy''),
        (''timestamp'', JStr (isoformat now)),
        (''database'', JStr (if probe then ''connected'' else ''disconnected''))])"

text \<open>One constructor for each route of the application, with what the handler reads.\<close>

datatype request =
    PostCalculateDelivery "exn + json"
  | PostContact "exn + json"
  | GetCoefficients
  | GetAdmin
  | PostUpdateCoefficients "(string \<times> string) list"
  | GetAdminCalculations "int option"
  | GetAdminContacts "int option"
  | GetIndex
  | GetHealth bool

fun route ::
  "(string \<Rightarrow> double option) \<Rightarrow> (nat \<Rightarrow> string) \<Rightarrow> nat \<Rightarrow> store \<Rightarrow> request \<Rightarrow> store \<times> response" where
  "route float isoformat now db (PostCalculateDelivery b) = calculate_delivery now db b"
| "route float isoformat now db (PostContact b) = submit_contact now db b"
| "route float isoformat now db GetCoefficients = (db, get_coefficients isoformat db)"
| "route float isoformat now db GetAdmin = (db, admin_dashboard db)"
| "route float isoformat now db (PostUpdateCoefficients form) =
     update_coefficients float now db form"
| "route float isoformat now db (GetAdminCalculations p) = (db, admin_calculations db p)"
| "route float isoformat now db (GetAdminContacts p) = (db, admin_contacts db p)"
| "route float isoformat now db GetIndex = (db, index)"
| "route float isoformat now db (GetHealth probe) = (db, health_check isoformat now probe)"

section \<open>Properties of the float operations\<close>

lemma powi_mono: "a \<le> b \<Longrightarrow> (2::rat) powi a \<le> 2 powi b"
  by (rule power_int_increasing) simp_all

lemma powi_strict_mono: "a < b \<Longrightarrow> (2::rat) powi a < 2 powi b"
  by (rule power_int_strict_increasing) simp_all


lemma powi_diff: "(2::rat) powi a / 2 powi b = 2 powi (a - b)"
  by (rule power_int_diff [symmetric]) simp

lemma powi_pos: "0 < (2::rat) powi a"
  by simp

lemma bitlen_powi:
  assumes "0 < p"
  shows "(2::rat) powi (bitlen p - 1) \<le> of_int p" and "of_int p < (2::rat) powi bitlen p"
proof -
  have b: "1 \<le> bitlen p"
    using assms bitlen_eq_zero_iff [of p] bitlen_nonneg [of p] by linarith
  from bitlen_bounds [OF assms]
  have l: "(2::int) ^ nat (bitlen p - 1) \<le> p" and u: "p < 2 ^ nat (bitlen p)"
    by simp_all
  have "(2::rat) powi (bitlen p - 1) = 2 ^ nat (bitlen p - 1)"
    using b by (simp add: power_int_nonneg_exp)
  also have "\<dots> = of_int (2 ^ nat (bitlen p - 1))" by simp
  also have "\<dots> \<le> of_int p" using l by (simp only: of_int_le_iff)
  finally show "(2::rat) powi (bitlen p - 1) \<le> of_int p" .
  have "(of_int p :: rat) < of_int (2 ^ nat (bitlen p))"
    using u by (simp only: of_int_less_iff)
  also have "\<dots> = 2 powi bitlen p"
    using b by (simp add: power_int_nonneg_exp)
  finally show "of_int p < (2::rat) powi bitlen p" .
qed

lemma exponent_bounds:
  assumes "0 < x"
  shows "2 powi exponent x \<le> x" and "x < 2 powi (exponent x + 1)"
proof -
  obtain p q where pq: "quotient_of x = (p, q)" by (cases "quotient_of x")
  then have q: "0 < q" and x: "x = of_int p / of_int q"
    by (auto dest: quotient_of_denom_pos quotient_of_div)
  with assms have p: "0 < p"
    by (simp add: zero_less_divide_iff)
  define k where "k = bitlen p - bitlen q"
  have qr: "(0::rat) < of_int q" using q by simp
  have "x < 2 powi bitlen p / 2 powi (bitlen q - 1)"
  proof -
    have "x < 2 powi bitlen p / of_int q"
      unfolding x using bitlen_powi(2) [OF p] qr by (simp add: divide_strict_right_mono)
    also have "\<dots> \<le> 2 powi bitlen p / 2 powi (bitlen q - 1)"
      using bitlen_powi(1) [OF q] q by (intro divide_left_mono mult_pos_pos) simp_all
    finally show ?thesis .
  qed
  also have "\<dots> = 2 powi (bitlen p - (bitlen q - 1))"
    by (rule powi_diff)
  also have "bitlen p - (bitlen q - 1) = k + 1"
    by (simp add: k_def)
  finally have up: "x < 2 powi (k + 1)" .
  have "2 powi (bitlen p - 1) / 2 powi bitlen q < x"
  proof -
    have "2 powi (bitlen p - 1) / 2 powi bitlen q < 2 powi (bitlen p - 1) / (of_int q :: rat)"
      using bitlen_powi(2) [OF q] qr by (intro divide_strict_left_mono) simp_all
    also have "\<dots> \<le> x"
      unfolding x using bitlen_powi(1) [OF p] qr by (simp add: divide_right_mono)
    finally show ?thesis .
  qed
  moreover have "2 powi (bitlen p - 1) / 2 powi bitlen q = (2::rat) powi (bitlen p - 1 - bitlen q)"
    by (rule powi_diff)
  moreover have "bitlen p - 1 - bitlen q = k - 1"
    by (simp add: k_def)
  ultimately have low: "2 powi (k - 1) < x" by simp
  have e: "exponent x = (if 2 powi k \<le> x then k else k - 1)"
    by (simp add: exponent_def pq k_def Let_def)
  show "2 powi exponent x \<le> x"
    using low by (simp add: e)
  show "x < 2 powi (exponent x + 1)"
    using up by (auto simp: e)
qed

lemma exponent_eqI:
  assumes "2 powi e \<le> x" and "x < 2 powi (e + 1)"
  shows "exponent x = e"
proof -
  have "0 < x" using assms(1) powi_pos [of e] by linarith
  note b = exponent_bounds [OF this]
  have "\<not> exponent x < e"
  proof
    assume "exponent x < e"
    then have "2 powi (exponent x + 1) \<le> (2::rat) powi e" by (intro powi_mono) simp
    with b(2) assms(1) show False by linarith
  qed
  moreover have "\<not> e < exponent x"
  proof
    assume "e < exponent x"
    then have "2 powi (e + 1) \<le> (2::rat) powi exponent x" by (intro powi_mono) simp
    with b(1) assms(2) show False by linarith
  qed
  ultimately show ?thesis by linarith
qed





lemma nearest_eq:
  "nearest x = of_int (round_half_even (x / 2 powi (max (exponent x) (- 1022) - 52))) *
     2 powi (max (exponent x) (- 1022) - 52)"
  by (simp add: nearest_def Let_def)




lemma float_of_int_cases:
  "float_of_int i = Inl OverflowError \<or> (\<exists>d. float_of_int i = Inr d)"
  by (simp add: float_of_int_def Let_def)


lemma round_half_even_eqI:
  assumes "\<bar>y - of_int k\<bar> < 1 / 2 \<or> (\<bar>y - of_int k\<bar> = 1 / 2 \<and> even k)"
  shows "round_half_even y = k"
proof (cases "of_int k \<le> y")
  case True
  with assms have u: "y \<le> of_int k + 1 / 2" by auto
  with True have f: "\<lfloor>y\<rfloor> = k" by (intro floor_unique) simp_all
  show ?thesis
    using assms True by (auto simp: round_half_even_def Let_def f)
next
  case False
  with assms have l: "of_int k - 1 / 2 \<le> y" by auto
  with False have f: "\<lfloor>y\<rfloor> = k - 1" by (intro floor_unique) simp_all
  show ?thesis
    using assms False by (auto simp: round_half_even_def Let_def f)
qed

lemma to_double_pos:
  assumes "2 powi e \<le> x" and "x < 2 powi (e + 1)" and "- 1022 \<le> e"
    and "\<bar>x / 2 powi (e - 52) - of_int k\<bar> < 1 / 2 \<or>
         (\<bar>x / 2 powi (e - 52) - of_int k\<bar> = 1 / 2 \<and> even k)"
    and "of_int k * 2 powi (e - 52) = m"
    and "0 < m" and "m < 2 ^ 1024"
  shows "to_double x = Fin m"
proof -
  have x: "0 < x" using assms(1) powi_pos [of e] by linarith
  have e: "exponent x = e" using assms(1,2) by (rule exponent_eqI)
  have "round_half_even (x / 2 powi (e - 52)) = k"
    using assms(4) by (rule round_half_even_eqI)
  then have "nearest \<bar>x\<bar> = m"
    using x assms(3,5) by (simp add: nearest_eq e max_def)
  then show ?thesis
    using x assms(6,7) by (simp add: to_double_def)
qed

lemma float_of_int_pos:
  assumes "0 < i" and "to_double (of_int i) = Fin m"
  shows "float_of_int i = Inr (Fin m)"
  using assms by (auto simp: float_of_int_def to_double_def Let_def split: if_splits)


lemma cost_example_quarter:
  "py_round2 (fadd (fadd (Fin 5) (fmul (Fin (1 / 2)) (Fin (4503599627370497 / 18014398509481984)))) (fmul (Fin (1 / 2)) (Fin 2))) =
     Fin (6890507429876859 / 1125899906842624)"
proof -
  have t1: "to_double (4503599627370497 / 36028797018963968) = Fin (4503599627370497 / 36028797018963968)"
    by (rule to_double_pos [where e = "- 3" and k = 4503599627370497]) simp_all
  have m1: "fmul (Fin (1 / 2)) (Fin (4503599627370497 / 18014398509481984)) = Fin (4503599627370497 / 36028797018963968)"
    by (simp add: fmul_def is_inf_def is_zero_def t1)
  have t2: "to_double (184647584722190337 / 36028797018963968) = Fin (41 / 8)"
    by (rule to_double_pos [where e = 2 and k = 5770237022568448]) simp_all
  have a1: "fadd (Fin 5) (Fin (4503599627370497 / 36028797018963968)) = Fin (41 / 8)"
    by (simp add: fadd_def is_inf_def t2)
  have t3: "to_double (1) = Fin 1"
    by (rule to_double_pos [where e = 0 and k = 4503599627370496]) simp_all
  have m2: "fmul (Fin (1 / 2)) (Fin 2) = Fin 1"
    by (simp add: fmul_def is_inf_def is_zero_def t3)
  have t4: "to_double (49 / 8) = Fin (49 / 8)"
    by (rule to_double_pos [where e = 2 and k = 6896136929411072]) simp_all
  have a2: "fadd (Fin (41 / 8)) (Fin 1) = Fin (49 / 8)"
    by (simp add: fadd_def is_inf_def t4)
  have h: "round_half_even (1225 / 2) = 612"
    by (rule round_half_even_eqI) simp
  have t5: "to_double (153 / 25) = Fin (6890507429876859 / 1125899906842624)"
    by (rule to_double_pos [where e = 2 and k = 6890507429876859]) simp_all
  have r: "py_round2 (Fin (49 / 8)) = Fin (6890507429876859 / 1125899906842624)"
    by (simp add: h t5)
  show ?thesis
    by (simp only: m1 a1 m2 a2 r)
qed

lemma cost_example_ten:
  "py_round2 (fadd (fadd (Fin 5) (fmul (Fin (1 / 2)) (Fin 10))) (fmul (Fin (1 / 2)) (Fin 2))) =
     Fin 11"
proof -
  have t1: "to_double (5) = Fin 5"
    by (rule to_double_pos [where e = 2 and k = 5629499534213120]) simp_all
  have m1: "fmul (Fin (1 / 2)) (Fin 10) = Fin 5"
    by (simp add: fmul_def is_inf_def is_zero_def t1)
  have t2: "to_double (10) = Fin 10"
    by (rule to_double_pos [where e = 3 and k = 5629499534213120]) simp_all
  have a1: "fadd (Fin 5) (Fin 5) = Fin 10"
    by (simp add: fadd_def is_inf_def t2)
  have t3: "to_double (1) = Fin 1"
    by (rule to_double_pos [where e = 0 and k = 4503599627370496]) simp_all
  have m2: "fmul (Fin (1 / 2)) (Fin 2) = Fin 1"
    by (simp add: fmul_def is_inf_def is_zero_def t3)
  have t4: "to_double (11) = Fin 11"
    by (rule to_double_pos [where e = 3 and k = 6192449487634432]) simp_all
  have a2: "fadd (Fin 10) (Fin 1) = Fin 11"
    by (simp add: fadd_def is_inf_def t4)
  have h: "round_half_even (1100) = 1100"
    by (rule round_half_even_eqI) simp
  have t5: "to_double (11) = Fin 11"
    by (rule to_double_pos [where e = 3 and k = 6192449487634432]) simp_all
  have r: "py_round2 (Fin 11) = Fin 11"
    by (simp add: h t5)
  show ?thesis
    by (simp only: m1 a1 m2 a2 r)
qed

lemma cost_example_large:
  "py_round2 (fadd (fadd (Fin 5) (fmul (Fin (1 / 2)) (Fin 9007199254740992))) (fmul (Fin (1 / 2)) (Fin 2))) =
     Fin 4503599627370502"
proof -
  have t1: "to_double (4503599627370496) = Fin 4503599627370496"
    by (rule to_double_pos [where e = 52 and k = 4503599627370496]) simp_all
  have m1: "fmul (Fin (1 / 2)) (Fin 9007199254740992) = Fin 4503599627370496"
    by (simp add: fmul_def is_inf_def is_zero_def t1)
  have t2: "to_double (4503599627370501) = Fin 4503599627370501"
    by (rule to_double_pos [where e = 52 and k = 4503599627370501]) simp_all
  have a1: "fadd (Fin 5) (Fin 4503599627370496) = Fin 4503599627370501"
    by (simp add: fadd_def is_inf_def t2)
  have t3: "to_double (1) = Fin 1"
    by (rule to_double_pos [where e = 0 and k = 4503599627370496]) simp_all
  have m2: "fmul (Fin (1 / 2)) (Fin 2) = Fin 1"
    by (simp add: fmul_def is_inf_def is_zero_def t3)
  have t4: "to_double (4503599627370502) = Fin 4503599627370502"
    by (rule to_double_pos [where e = 52 and k = 4503599627370502]) simp_all
  have a2: "fadd (Fin 4503599627370501) (Fin 1) = Fin 4503599627370502"
    by (simp add: fadd_def is_inf_def t4)
  have h: "round_half_even (450359962737050200) = 450359962737050200"
    by (rule round_half_even_eqI) simp
  have t5: "to_double (4503599627370502) = Fin 4503599627370502"
    by (rule to_double_pos [where e = 52 and k = 4503599627370502]) simp_all
  have r: "py_round2 (Fin 4503599627370502) = Fin 4503599627370502"
    by (simp add: h t5)
  show ?thesis
    by (simp only: m1 a1 m2 a2 r)
qed

section \<open>Properties of the delivery calculation\<close>






lemma map_of_Some_nonempty: "map_of kvs k = Some v \<Longrightarrow> kvs \<noteq> []"
  by (cases kvs) simp_all

lemma init_db_command_fresh:
  "fst (init_db_command now db) =
     Some \<lparr>delivery_coefficients =
             [\<lparr>coefficients_id = 1, distance_coefficient = Fin (1 / 2),
               weight_coefficient = Fin (1 / 2), base_cost = Fin 5, updated_at = now\<rparr>],
           contact_submissions = [], delivery_calculations = []\<rparr>"
  by (simp add: init_db_command_def create_all_def drop_all_def first_coefficients_def
      add_coefficients_def empty_tables_def next_id_def)

lemma float_of_int_10: "float_of_int 10 = Inr (Fin 10)"
proof -
  have "to_double (of_int 10) = Fin 10"
    by (rule to_double_pos [where e = 3 and k = 5629499534213120]) simp_all
  then show ?thesis by (intro float_of_int_pos) simp_all
qed

lemma float_of_int_2: "float_of_int 2 = Inr (Fin 2)"
proof -
  have "to_double (of_int 2) = Fin 2"
    by (rule to_double_pos [where e = 1 and k = 4503599627370496]) simp_all
  then show ?thesis by (intro float_of_int_pos) simp_all
qed

lemma float_of_int_large: "float_of_int 9007199254740993 = Inr (Fin 9007199254740992)"
proof -
  have "to_double (of_int 9007199254740993) = Fin 9007199254740992"
    by (rule to_double_pos [where e = 53 and k = 4503599627370496]) simp_all
  then show ?thesis by (intro float_of_int_pos) simp_all
qed






lemma and_then_Inr: "and_then m f = Inr y \<longleftrightarrow> (\<exists>x. m = Inr x \<and> f x = Inr y)"
  by (cases m) (simp_all add: and_then_def)

lemma add_calculation_Inr: "add_calculation now db d w cost = Inr db' \<longleftrightarrow>
  (\<exists>t. db = Some t \<and> db' = Some (t\<lparr>delivery_calculations := delivery_calculations t @
            [\<lparr>calculation_id = next_id (map calculation_id (delivery_calculations t)),
              distance = d, weight = w, calculated_cost = cost, calculated_at = now\<rparr>]\<rparr>))"
  by (cases db) (auto simp: add_calculation_def)

lemma first_coefficients_Some: "first_coefficients db = Inr (Some c) \<longleftrightarrow>
  (\<exists>t cs. db = Some t \<and> delivery_coefficients t = c # cs)"
  by (auto simp: first_coefficients_def split: option.splits list.splits)

text \<open>
  C2 as stated does not hold for every successful request: the row holds the distance as
  a float, and for the int \<open>2 ^ 53 + 1\<close> that is \<open>2 ^ 53\<close>, not the request input, which the
  response still echoes.
\<close>

theorem stored_distance_counterexample:
  "calculate_delivery 9 (fst (init_db_command 7 None))
     (Inr (JDict [(''distance'', JInt 9007199254740993), (''weight'', JInt 2)])) =
   (Some \<lparr>delivery_coefficients =
            [\<lparr>coefficients_id = 1, distance_coefficient = Fin (1 / 2),
              weight_coefficient = Fin (1 / 2), base_cost = Fin 5, updated_at = 7\<rparr>],
          contact_submissions = [],
          delivery_calculations =
            [\<lparr>calculation_id = 1, distance = Fin 9007199254740992, weight = Fin 2,
              calculated_cost = Fin 4503599627370502, calculated_at = 9\<rparr>]\<rparr>,
    Json 200 (JDict
      [(''success'', JBool True),
       (''cost'', JFloat (Fin 4503599627370502)),
       (''distance'', JInt 9007199254740993),
       (''weight'', JInt 2),
       (''coefficients_used'', JDict
          [(''distance_coefficient'', JFloat (Fin (1 / 2))),
           (''weight_coefficient'', JFloat (Fin (1 / 2))),
           (''base_cost'', JFloat (Fin 5))])])) \<and>
   (9007199254740992 :: rat) \<noteq> of_int 9007199254740993"
  by (simp add: init_db_command_fresh calculate_delivery_def calculate_delivery_try_def
      and_then_def not_positive_def first_coefficients_def float_of_int_large float_of_int_2
      cost_example_large add_calculation_def next_id_def Let_def)

text \<open>
  C2, amended. A request answered with status 200 had a body giving a distance and a
  weight that convert to floats, met a store with a first coefficients row, and left the
  store with exactly one more calculation row, holding those two floats, the cost of the
  response and the time of the request; the response echoes the two inputs as given and
  the coefficients of that row.
\<close>

theorem calculate_delivery_success:
  assumes "calculate_delivery now db request_json = (db', resp)" and "status resp = 200"
  shows "\<exists>body dv wv d w t c cs.
    request_json = Inr (JDict body) \<and>
    map_of body ''distance'' = Some dv \<and> to_float dv = Inr d \<and>
    map_of body ''weight'' = Some wv \<and> to_float wv = Inr w \<and>
    db = Some t \<and> delivery_coefficients t = c # cs \<and>
    db' = Some (t\<lparr>delivery_calculations := delivery_calculations t @
      [\<lparr>calculation_id = next_id (map calculation_id (delivery_calculations t)),
        distance = d, weight = w,
        calculated_cost = py_round2
          (fadd (fadd (base_cost c) (fmul (distance_coefficient c) d))
             (fmul (weight_coefficient c) w)),
        calculated_at = now\<rparr>]\<rparr>) \<and>
    resp = Json 200 (JDict
      [(''success'', JBool True),
       (''cost'', JFloat (py_round2
          (fadd (fadd (base_cost c) (fmul (distance_coefficient c) d))
             (fmul (weight_coefficient c) w)))),
       (''distance'', dv),
       (''weight'', wv),
       (''coefficients_used'', JDict
          [(''distance_coefficient'', JFloat (distance_coefficient c)),
           (''weight_coefficient'', JFloat (weight_coefficient c)),
           (''base_cost'', JFloat (base_cost c))])])"
proof -
  from assms have tr: "calculate_delivery_try now db request_json = Inr (db', resp)"
    by (auto simp: calculate_delivery_def split: sum.splits)
  from tr obtain data where rq: "request_json = Inr data"
    by (auto simp: calculate_delivery_try_def and_then_Inr)
  from tr rq assms(2) obtain body where data: "data = JDict body"
    by (cases data) (auto simp: calculate_delivery_try_def and_then_def split: if_splits)
  define dv where "dv = (case map_of body ''distance'' of None \<Rightarrow> JNull | Some v \<Rightarrow> v)"
  define wv where "wv = (case map_of body ''weight'' of None \<Rightarrow> JNull | Some v \<Rightarrow> v)"
  from tr rq data assms(2) obtain c d w where
    nn: "dv \<noteq> JNull" "wv \<noteq> JNull" and fc: "first_coefficients db = Inr (Some c)"
    and d: "to_float dv = Inr d" and w: "to_float wv = Inr w"
    and add: "add_calculation now db d w (py_round2
          (fadd (fadd (base_cost c) (fmul (distance_coefficient c) d))
             (fmul (weight_coefficient c) w))) = Inr db'"
    and resp: "resp = Json 200 (JDict
      [(''success'', JBool True),
       (''cost'', JFloat (py_round2
          (fadd (fadd (base_cost c) (fmul (distance_coefficient c) d))
             (fmul (weight_coefficient c) w)))),
       (''distance'', dv),
       (''weight'', wv),
       (''coefficients_used'', JDict
          [(''distance_coefficient'', JFloat (distance_coefficient c)),
           (''weight_coefficient'', JFloat (weight_coefficient c)),
           (''base_cost'', JFloat (base_cost c))])])"
    by (auto simp: calculate_delivery_try_def and_then_Inr Let_def dv_def wv_def
        split: if_splits option.splits)
  from nn have m: "map_of body ''distance'' = Some dv" "map_of body ''weight'' = Some wv"
    by (auto simp: dv_def wv_def split: option.splits)
  from fc obtain t cs where t: "db = Some t" "delivery_coefficients t = c # cs"
    by (auto simp: first_coefficients_Some)
  from add t have "db' = Some (t\<lparr>delivery_calculations := delivery_calculations t @
      [\<lparr>calculation_id = next_id (map calculation_id (delivery_calculations t)),
        distance = d, weight = w,
        calculated_cost = py_round2
          (fadd (fadd (base_cost c) (fmul (distance_coefficient c) d))
             (fmul (weight_coefficient c) w)),
        calculated_at = now\<rparr>]\<rparr>)"
    by (simp add: add_calculation_Inr)
  with rq data m d w t resp show ?thesis by blast
qed

theorem calculate_delivery_success_witness:
  "status (snd (calculate_delivery 9 (fst (init_db_command 7 None))
      (Inr (JDict [(''distance'', JFloat (Fin (4503599627370497 / 18014398509481984))),
                   (''weight'', JInt 2)])))) = 200 \<and>
   fst (calculate_delivery 9 (fst (init_db_command 7 None))
      (Inr (JDict [(''distance'', JFloat (Fin (4503599627370497 / 18014398509481984))),
                   (''weight'', JInt 2)]))) =
     Some \<lparr>delivery_coefficients =
             [\<lparr>coefficients_id = 1, distance_coefficient = Fin (1 / 2),
               weight_coefficient = Fin (1 / 2), base_cost = Fin 5, updated_at = 7\<rparr>],
           contact_submissions = [],
           delivery_calculations =
             [\<lparr>calculation_id = 1,
               distance = Fin (4503599627370497 / 18014398509481984), weight = Fin 2,
               calculated_cost = Fin (6890507429876859 / 1125899906842624),
               calculated_at = 9\<rparr>]\<rparr>"
proof -
  let ?r = "calculate_delivery 9 (fst (init_db_command 7 None))
      (Inr (JDict [(''distance'', JFloat (Fin (4503599627370497 / 18014398509481984))),
                   (''weight'', JInt 2)]))"
  have st: "status (snd ?r) = 200"
    by (simp add: init_db_command_fresh calculate_delivery_def calculate_delivery_try_def
        and_then_def not_positive_def first_coefficients_def float_of_int_2
        add_calculation_def Let_def)
  have pr: "?r = (fst ?r, snd ?r)" by simp
  from calculate_delivery_success [OF pr st] st show ?thesis
    by (auto simp: init_db_command_fresh next_id_def float_of_int_2 cost_example_quarter)
qed

text \<open>
  C3 as stated does not hold. With a distance that is not a number and a weight of \<open>-1\<close>,
  the comparison \<^verbatim>\<open>distance <= 0\<close> raises before the weight is looked at, and the
  answer is the 500 of the \<^verbatim>\<open>except\<close> clause.
\<close>

theorem nonpositive_weight_counterexample:
  "le_zero (JInt (- 1)) = Inr True \<and>
   calculate_delivery 9 (fst (init_db_command 7 None))
     (Inr (JDict [(''distance'', JStr ''far''), (''weight'', JInt (- 1))])) =
   (fst (init_db_command 7 None), JsonError 500 (Fmt ''Calculation failed: '' TypeError []))"
  by (simp add: calculate_delivery_def calculate_delivery_try_def and_then_def
      not_positive_def)

text \<open>
  C3, amended. When the body gives a distance or a weight that is a number and
  \<^verbatim>\<open><= 0\<close>, the store is left as it was. The response has status 400 when the distance
  is absent, null or a number; when the distance is present and not a number, it is the
  500 of the \<^verbatim>\<open>except\<close> clause, for the TypeError of the comparison.
\<close>

theorem nonpositive_rejected:
  assumes "dict_get data ''distance'' JNull = Inr dv"
    and "dict_get data ''weight'' JNull = Inr wv"
    and "le_zero dv = Inr True \<or> le_zero wv = Inr True"
  shows "fst (calculate_delivery now db (Inr data)) = db \<and>
    (if dv = JNull \<or> le_zero dv \<noteq> Inl TypeError
     then status (snd (calculate_delivery now db (Inr data))) = 400
     else snd (calculate_delivery now db (Inr data)) =
       JsonError 500 (Fmt ''Calculation failed: '' TypeError []))"
proof (cases "truthy data")
  case False
  then show ?thesis
    using assms
    by (cases data) (auto simp: calculate_delivery_def calculate_delivery_try_def and_then_def)
next
  case True
  show ?thesis
  proof (cases "dv = JNull \<or> wv = JNull")
    case True
    with \<open>truthy data\<close> assms show ?thesis
      by (auto simp: calculate_delivery_def calculate_delivery_try_def and_then_def)
  next
    case False
    show ?thesis
    proof (cases "le_zero dv")
      case (Inl e)
      then have "le_zero dv = Inl TypeError" by (cases dv) simp_all
      with False \<open>truthy data\<close> assms(1,2) show ?thesis
        by (simp add: calculate_delivery_def calculate_delivery_try_def and_then_def
            not_positive_def)
    next
      case (Inr b)
      with assms(3) have "not_positive dv wv = Inr True"
        by (auto simp: not_positive_def and_then_def)
      with Inr False \<open>truthy data\<close> assms(1,2) show ?thesis
        by (simp add: calculate_delivery_def calculate_delivery_try_def and_then_def)
    qed
  qed
qed

theorem nonpositive_rejected_witness:
  "calculate_delivery 9 (fst (init_db_command 7 None))
     (Inr (JDict [(''distance'', JInt 3), (''weight'', JFloat (Fin 0))])) =
   (fst (init_db_command 7 None),
    JsonError 400 (Text ''Distance and weight must be positive values'')) \<and>
   status (snd (calculate_delivery 9 (fst (init_db_command 7 None))
     (Inr (JDict [(''distance'', JInt 3), (''weight'', JFloat (Fin 0))])))) = 400 \<and>
   fst (calculate_delivery 9 (fst (init_db_command 7 None))
     (Inr (JDict [(''distance'', JList []), (''weight'', JInt (- 2))]))) =
   fst (init_db_command 7 None) \<and>
   status (snd (calculate_delivery 9 (fst (init_db_command 7 None))
     (Inr (JDict [(''distance'', JList []), (''weight'', JInt (- 2))])))) = 500"
proof -
  have a: "calculate_delivery 9 (fst (init_db_command 7 None))
     (Inr (JDict [(''distance'', JInt 3), (''weight'', JFloat (Fin 0))])) =
   (fst (init_db_command 7 None),
    JsonError 400 (Text ''Distance and weight must be positive values''))"
    by (simp add: calculate_delivery_def calculate_delivery_try_def and_then_def
      not_positive_def)
  show ?thesis
    using nonpositive_rejected [of "JDict [(''distance'', JInt 3), (''weight'', JFloat (Fin 0))]"
        "JInt 3" "JFloat (Fin 0)" 9 "fst (init_db_command 7 None)"]
      nonpositive_rejected [of "JDict [(''distance'', JList []), (''weight'', JInt (- 2))]"
        "JList []" "JInt (- 2)" 9 "fst (init_db_command 7 None)"]
    by (simp add: a)
qed

text \<open>
  C10. A body whose distance is present and not a number, or whose distance is not
  \<^verbatim>\<open><= 0\<close> and whose weight is present and not a number, makes the positivity comparison
  raise TypeError; the \<^verbatim>\<open>except\<close> clause answers with status 500, not with the 400 of
  the validation, and the store is left as it was.
\<close>

theorem non_numeric_is_500:
  assumes "map_of body ''distance'' = Some dv" and "dv \<noteq> JNull"
    and "map_of body ''weight'' = Some wv" and "wv \<noteq> JNull"
    and "le_zero dv = Inl TypeError \<or> (le_zero dv = Inr False \<and> le_zero wv = Inl TypeError)"
  shows "not_positive dv wv = Inl TypeError \<and>
    calculate_delivery now db (Inr (JDict body)) =
      (db, JsonError 500 (Fmt ''Calculation failed: '' TypeError []))"
proof -
  have ne: "body \<noteq> []" using assms(1) by (rule map_of_Some_nonempty)
  have np: "not_positive dv wv = Inl TypeError"
    using assms(5) by (auto simp: not_positive_def and_then_def)
  show ?thesis
    using ne assms(1-4)
    by (simp add: np calculate_delivery_def calculate_delivery_try_def and_then_def)
qed

theorem non_numeric_is_500_witness:
  "calculate_delivery 9 (fst (init_db_command 7 None))
     (Inr (JDict [(''distance'', JStr ''ten''), (''weight'', JInt 2)])) =
     (fst (init_db_command 7 None), JsonError 500 (Fmt ''Calculation failed: '' TypeError [])) \<and>
   status (snd (calculate_delivery 9 (fst (init_db_command 7 None))
     (Inr (JDict [(''distance'', JInt 10), (''weight'', JStr ''two'')])))) = 500"
  using non_numeric_is_500 [of "[(''distance'', JStr ''ten''), (''weight'', JInt 2)]"
      "JStr ''ten''" "JInt 2" 9 "fst (init_db_command 7 None)"]
    non_numeric_is_500 [of "[(''distance'', JInt 10), (''weight'', JStr ''two'')]"
      "JInt 10" "JStr ''two''" 9 "fst (init_db_command 7 None)"]
  by simp

section \<open>Properties of the contact form\<close>

lemma get_stripped_str:
  "map_of body k = Some (JStr s) \<Longrightarrow> get_stripped (JDict body) k = Inr (strip s)"
  by (simp add: get_stripped_def and_then_def)

lemma get_stripped_absent:
  "map_of body k = None \<Longrightarrow> get_stripped (JDict body) k = Inr []"
  by (simp add: get_stripped_def and_then_def strip_def)

lemma submit_contact_fields:
  assumes "map_of body ''name'' = Some (JStr n)" and "strip n \<noteq> []"
    and "map_of body ''email'' = Some (JStr e)"
    and "map_of body ''phone'' = None \<or> (\<exists>p. map_of body ''phone'' = Some (JStr p))"
    and "map_of body ''message'' = Some (JStr m)" and "strip m \<noteq> []"
  shows "submit_contact now db (Inr (JDict body)) =
    (if strip e = [] then (db, JsonError 400 (Text ''Name, email, and message are required''))
     else if invalid_email (strip e)
     then (db, JsonError 400 (Text ''Please provide a valid email address''))
     else case db of
       None \<Rightarrow> (db, JsonError 500 (Fmt ''Failed to submit contact form: '' OperationalError []))
     | Some t \<Rightarrow>
         (Some (t\<lparr>contact_submissions := contact_submissions t @
            [\<lparr>submission_id = next_id (map submission_id (contact_submissions t)),
              name = strip n, email = strip e,
              phone = (case map_of body ''phone'' of
                         None \<Rightarrow> None
                       | Some p \<Rightarrow> (case py_strip p of Inr s \<Rightarrow> if s \<noteq> [] then Some s else None | Inl x \<Rightarrow> None)),
              message = strip m, submitted_at = now\<rparr>]\<rparr>),
          Json 200 (JDict
            [(''success'', JBool True),
             (''message'', JStr (''Thank you for your message! We'' @ [CHR 0x27] @
                ''ll get back to you soon.'')),
             (''submission_id'',
              JInt (int (next_id (map submission_id (contact_submissions t)))))])))"
proof -
  have ne: "body \<noteq> []" using assms(1) by (rule map_of_Some_nonempty)
  obtain ph where ph: "get_stripped (JDict body) ''phone'' = Inr ph"
    and ph': "(if ph \<noteq> [] then Some ph else None) = (case map_of body ''phone'' of
                         None \<Rightarrow> None
                       | Some p \<Rightarrow> (case py_strip p of Inr s \<Rightarrow> if s \<noteq> [] then Some s else None | Inl x \<Rightarrow> None))"
    using assms(4) by (auto simp: get_stripped_str get_stripped_absent)
  show ?thesis
    using ne assms(2,6) ph'
    by (simp add: submit_contact_def submit_contact_try_def and_then_def ph
        get_stripped_str [OF assms(1)] get_stripped_str [OF assms(3)]
        get_stripped_str [OF assms(5)] add_submission_def Let_def split: option.splits)
qed

lemma strip_examples:
  "strip ''abc'' = ''abc''" "strip ''a@b'' = ''a@b''" "strip [] = []"
  "strip ''a@b.com'' = ''a@b.com''" "strip ''.@'' = ''.@''" "strip ''a.b@c'' = ''a.b@c''"
  by (simp_all add: strip_def is_space_def)

text \<open>
  C6. In a submission whose name and message are strings that are not empty once stripped,
  and whose phone is a string or absent, the emails \<open>abc\<close>, \<open>a@b\<close> and the empty string
  are answered with status 400 and leave the store as it was; the email \<open>a@b.com\<close> is
  never answered with 400, and on a store with tables it is answered with 200 and stored.
\<close>

theorem email_examples:
  assumes "map_of body ''name'' = Some (JStr n)" and "strip n \<noteq> []"
    and "map_of body ''email'' = Some (JStr e)"
    and "map_of body ''phone'' = None \<or> (\<exists>p. map_of body ''phone'' = Some (JStr p))"
    and "map_of body ''message'' = Some (JStr m)" and "strip m \<noteq> []"
  shows "(e = ''abc'' \<or> e = ''a@b'' \<or> e = [] \<longrightarrow>
      fst (submit_contact now db (Inr (JDict body))) = db \<and>
      status (snd (submit_contact now db (Inr (JDict body)))) = 400) \<and>
    (e = ''a@b.com'' \<longrightarrow>
      status (snd (submit_contact now db (Inr (JDict body)))) \<noteq> 400 \<and>
      (\<forall>t. db = Some t \<longrightarrow>
        status (snd (submit_contact now db (Inr (JDict body)))) = 200 \<and>
        map_option (map email \<circ> contact_submissions) (fst (submit_contact now db (Inr (JDict body)))) =
          Some (map email (contact_submissions t) @ [''a@b.com''])))"
  by (auto simp: submit_contact_fields [OF assms] strip_examples invalid_email_def
      split: option.splits)

lemma strip_names: "strip ''Ann'' = ''Ann''" "strip ''hi'' = ''hi''"
  by (simp_all add: strip_def is_space_def)

theorem email_examples_witness:
  "status (snd (submit_contact 3 (fst (init_db_command 7 None))
     (Inr (JDict [(''name'', JStr ''Ann''), (''email'', JStr ''a@b.com''),
                  (''message'', JStr ''hi'')])))) = 200 \<and>
   status (snd (submit_contact 3 (fst (init_db_command 7 None))
     (Inr (JDict [(''name'', JStr ''Ann''), (''email'', JStr ''abc''),
                  (''message'', JStr ''hi'')])))) = 400 \<and>
   status (snd (submit_contact 3 (fst (init_db_command 7 None))
     (Inr (JDict [(''name'', JStr ''Ann''), (''email'', JStr ''a@b''),
                  (''message'', JStr ''hi'')])))) = 400 \<and>
   status (snd (submit_contact 3 (fst (init_db_command 7 None))
     (Inr (JDict [(''name'', JStr ''Ann''), (''email'', JStr []),
                  (''message'', JStr ''hi'')])))) = 400"
  using
    email_examples [of "[(''name'', JStr ''Ann''), (''email'', JStr ''a@b.com''),
      (''message'', JStr ''hi'')]" "''Ann''" "''a@b.com''" "''hi''" 3
      "fst (init_db_command 7 None)"]
    email_examples [of "[(''name'', JStr ''Ann''), (''email'', JStr ''abc''),
      (''message'', JStr ''hi'')]" "''Ann''" "''abc''" "''hi''" 3
      "fst (init_db_command 7 None)"]
    email_examples [of "[(''name'', JStr ''Ann''), (''email'', JStr ''a@b''),
      (''message'', JStr ''hi'')]" "''Ann''" "''a@b''" "''hi''" 3
      "fst (init_db_command 7 None)"]
    email_examples [of "[(''name'', JStr ''Ann''), (''email'', JStr []),
      (''message'', JStr ''hi'')]" "''Ann''" "[]" "''hi''" 3
      "fst (init_db_command 7 None)"]
  by (simp add: strip_names init_db_command_fresh)

text \<open>
  C9. In such a submission the status is 400 exactly when the stripped email lacks an
  \<open>@\<close> or lacks a dot, wherever the two characters stand; on a store with tables the
  status is 200 exactly when the stripped email holds both. So \<open>.@\<close> and \<open>a.b@c\<close> are
  accepted.
\<close>

theorem email_check_iff:
  assumes "map_of body ''name'' = Some (JStr n)" and "strip n \<noteq> []"
    and "map_of body ''email'' = Some (JStr e)"
    and "map_of body ''phone'' = None \<or> (\<exists>p. map_of body ''phone'' = Some (JStr p))"
    and "map_of body ''message'' = Some (JStr m)" and "strip m \<noteq> []"
  shows "(status (snd (submit_contact now db (Inr (JDict body)))) = 400 \<longleftrightarrow>
      \<not> (CHR ''@'' \<in> set (strip e) \<and> CHR ''.'' \<in> set (strip e))) \<and>
    (db \<noteq> None \<longrightarrow>
      (status (snd (submit_contact now db (Inr (JDict body)))) = 200 \<longleftrightarrow>
       CHR ''@'' \<in> set (strip e) \<and> CHR ''.'' \<in> set (strip e)))"
  by (auto simp: submit_contact_fields [OF assms] invalid_email_def split: option.splits)

theorem email_check_iff_witness:
  "status (snd (submit_contact 3 (fst (init_db_command 7 None))
     (Inr (JDict [(''name'', JStr ''Ann''), (''email'', JStr ''.@''),
                  (''message'', JStr ''hi'')])))) = 200 \<and>
   status (snd (submit_contact 3 (fst (init_db_command 7 None))
     (Inr (JDict [(''name'', JStr ''Ann''), (''email'', JStr ''a.b@c''),
                  (''message'', JStr ''hi'')])))) = 200"
  using
    email_check_iff [of "[(''name'', JStr ''Ann''), (''email'', JStr ''.@''),
      (''message'', JStr ''hi'')]" "''Ann''" "''.@''" "''hi''" 3
      "fst (init_db_command 7 None)"]
    email_check_iff [of "[(''name'', JStr ''Ann''), (''email'', JStr ''a.b@c''),
      (''message'', JStr ''hi'')]" "''Ann''" "''a.b@c''" "''hi''" 3
      "fst (init_db_command 7 None)"]
  by (simp add: strip_names strip_examples init_db_command_fresh)

section \<open>Properties of the coefficients\<close>

text \<open>
  C5. Before \<^verbatim>\<open>init-db\<close> has run there are no tables, so no coefficients row exists;
  the query of the handler raises and the answer is the 500 of the \<^verbatim>\<open>except\<close> clause,
  where the claim, the message of the 404 branch and the comment of the sibling handler
  expect the not-initialised answer.
\<close>

theorem get_coefficients_uninitialised:
  "first_coefficients None = Inl OperationalError \<and>
   get_coefficients isoformat None =
     JsonError 500 (Fmt ''Failed to get coefficients: '' OperationalError []) \<and>
   status (get_coefficients isoformat None) \<noteq> 404"
  by (simp add: get_coefficients_def first_coefficients_def)

text \<open>
  The 404 answer needs tables that exist and hold no coefficients row, a store that the
  application never produces: the initialisation command, run on any store, leaves the
  single default row \<open>(0.5, 0.5, 5.0)\<close>, which the handler then returns.
\<close>

lemma get_coefficients_empty:
  "delivery_coefficients t = [] \<Longrightarrow>
     get_coefficients isoformat (Some t) =
       JsonError 404 (Text ''No coefficients found. Please initialize the database.'')"
  by (simp add: get_coefficients_def first_coefficients_def)

lemma get_coefficients_after_init:
  "get_coefficients isoformat (fst (init_db_command now db)) =
     Json 200 (JDict
       [(''success'', JBool True),
        (''coefficients'', JDict
           [(''id'', JInt 1),
            (''distance_coefficient'', JFloat (Fin 0.5)),
            (''weight_coefficient'', JFloat (Fin 0.5)),
            (''base_cost'', JFloat (Fin 5.0)),
            (''updated_at'', JStr (isoformat now))])])"
  by (simp add: get_coefficients_def first_coefficients_def init_db_command_fresh to_dict_def)

lemma form_float_cases:
  "form_float float form k d = Inl ValueError \<or> (\<exists>x. form_float float form k d = Inr x)"
  by (simp add: form_float_def split: option.splits)

text \<open>
  C4. When a field of the form is not numeric, or a parsed value is negative, the update
  leaves the store as it was and only flashes and redirects. When the three values are
  parsed and none is negative, on a store with tables, the coefficients that
  \<^verbatim>\<open>GET /api/coefficients\<close> returns afterwards are those values; the witness runs
  \<open>(-1, 0.5, 5)\<close>, a non-numeric field and \<open>(0.3, 0.4, 4.0)\<close>, the last as the doubles
  nearest to these decimals.
\<close>

theorem update_coefficients_validation:
  "((form_float float form ''distance_coefficient'' (Fin 0.5) = Inl ValueError \<or>
     form_float float form ''weight_coefficient'' (Fin 0.5) = Inl ValueError \<or>
     form_float float form ''base_cost'' (Fin 5.0) = Inl ValueError \<or>
     (\<exists>x. form_float float form ''distance_coefficient'' (Fin 0.5) = Inr x \<and> float_lt0 x) \<or>
     (\<exists>x. form_float float form ''weight_coefficient'' (Fin 0.5) = Inr x \<and> float_lt0 x) \<or>
     (\<exists>x. form_float float form ''base_cost'' (Fin 5.0) = Inr x \<and> float_lt0 x)) \<longrightarrow>
    fst (update_coefficients float now db form) = db \<and>
    (snd (update_coefficients float now db form) =
       Redirect ''admin_dashboard'' [(Text ''Please enter valid numeric values'', ''error'')] \<or>
     snd (update_coefficients float now db form) =
       Redirect ''admin_dashboard''
         [(Text ''All coefficients must be positive values'', ''error'')])) \<and>
   (form_float float form ''distance_coefficient'' (Fin 0.5) = Inr dc \<and> \<not> float_lt0 dc \<and>
    form_float float form ''weight_coefficient'' (Fin 0.5) = Inr wc \<and> \<not> float_lt0 wc \<and>
    form_float float form ''base_cost'' (Fin 5.0) = Inr bc \<and> \<not> float_lt0 bc \<and>
    db = Some t \<longrightarrow>
    get_coefficients isoformat (fst (update_coefficients float now db form)) =
      Json 200 (JDict
        [(''success'', JBool True),
         (''coefficients'', JDict
            [(''id'', JInt (int (case delivery_coefficients t of
                                   [] \<Rightarrow> 1 | c # cs \<Rightarrow> coefficients_id c))),
             (''distance_coefficient'', JFloat dc),
             (''weight_coefficient'', JFloat wc),
             (''base_cost'', JFloat bc),
             (''updated_at'', JStr (isoformat now))])]))"
proof (intro conjI impI)
  assume bad: "form_float float form ''distance_coefficient'' (Fin 0.5) = Inl ValueError \<or>
     form_float float form ''weight_coefficient'' (Fin 0.5) = Inl ValueError \<or>
     form_float float form ''base_cost'' (Fin 5.0) = Inl ValueError \<or>
     (\<exists>x. form_float float form ''distance_coefficient'' (Fin 0.5) = Inr x \<and> float_lt0 x) \<or>
     (\<exists>x. form_float float form ''weight_coefficient'' (Fin 0.5) = Inr x \<and> float_lt0 x) \<or>
     (\<exists>x. form_float float form ''base_cost'' (Fin 5.0) = Inr x \<and> float_lt0 x)"
  have r: "update_coefficients_try float now db form = Inl ValueError \<or>
    update_coefficients_try float now db form =
      Inr (db, [(Text ''All coefficients must be positive values'', ''error'')])"
    using bad form_float_cases [of float form "''distance_coefficient''" "Fin 0.5"]
      form_float_cases [of float form "''weight_coefficient''" "Fin 0.5"]
      form_float_cases [of float form "''base_cost''" "Fin 5.0"]
    by (auto simp: update_coefficients_try_def and_then_def)
  from r show "fst (update_coefficients float now db form) = db"
    by (auto simp: update_coefficients_def)
  from r show "snd (update_coefficients float now db form) =
       Redirect ''admin_dashboard'' [(Text ''Please enter valid numeric values'', ''error'')] \<or>
     snd (update_coefficients float now db form) =
       Redirect ''admin_dashboard''
         [(Text ''All coefficients must be positive values'', ''error'')]"
    by (auto simp: update_coefficients_def)
next
  assume good: "form_float float form ''distance_coefficient'' (Fin 0.5) = Inr dc \<and> \<not> float_lt0 dc \<and>
    form_float float form ''weight_coefficient'' (Fin 0.5) = Inr wc \<and> \<not> float_lt0 wc \<and>
    form_float float form ''base_cost'' (Fin 5.0) = Inr bc \<and> \<not> float_lt0 bc \<and>
    db = Some t"
  then show "get_coefficients isoformat (fst (update_coefficients float now db form)) =
      Json 200 (JDict
        [(''success'', JBool True),
         (''coefficients'', JDict
            [(''id'', JInt (int (case delivery_coefficients t of
                                   [] \<Rightarrow> 1 | c # cs \<Rightarrow> coefficients_id c))),
             (''distance_coefficient'', JFloat dc),
             (''weight_coefficient'', JFloat wc),
             (''base_cost'', JFloat bc),
             (''updated_at'', JStr (isoformat now))])])"
    by (cases "delivery_coefficients t")
      (simp_all add: update_coefficients_def update_coefficients_try_def and_then_def
        first_coefficients_def set_coefficients_def add_coefficients_def
        get_coefficients_def to_dict_def next_id_def)
qed

theorem update_coefficients_validation_witness:
  "fst (update_coefficients
      (map_of [(''-1'', Fin (- 1)), (''0.5'', Fin 0.5), (''5'', Fin 5),
               (''0.3'', Fin (5404319552844595 / 18014398509481984)),
               (''0.4'', Fin (3602879701896397 / 9007199254740992)), (''4.0'', Fin 4)])
      9 (fst (init_db_command 7 None))
      [(''distance_coefficient'', ''-1''), (''weight_coefficient'', ''0.5''),
       (''base_cost'', ''5'')]) = fst (init_db_command 7 None) \<and>
   fst (update_coefficients
      (map_of [(''-1'', Fin (- 1)), (''0.5'', Fin 0.5), (''5'', Fin 5),
               (''0.3'', Fin (5404319552844595 / 18014398509481984)),
               (''0.4'', Fin (3602879701896397 / 9007199254740992)), (''4.0'', Fin 4)])
      9 (fst (init_db_command 7 None))
      [(''distance_coefficient'', ''0.3''), (''weight_coefficient'', ''abc''),
       (''base_cost'', ''5'')]) = fst (init_db_command 7 None) \<and>
   get_coefficients (\<lambda>t. ''2026-01-01T00:00:00'')
     (fst (update_coefficients
      (map_of [(''-1'', Fin (- 1)), (''0.5'', Fin 0.5), (''5'', Fin 5),
               (''0.3'', Fin (5404319552844595 / 18014398509481984)),
               (''0.4'', Fin (3602879701896397 / 9007199254740992)), (''4.0'', Fin 4)])
      9 (fst (init_db_command 7 None))
      [(''distance_coefficient'', ''0.3''), (''weight_coefficient'', ''0.4''),
       (''base_cost'', ''4.0'')])) =
     Json 200 (JDict
       [(''success'', JBool True),
        (''coefficients'', JDict
           [(''id'', JInt 1),
            (''distance_coefficient'', JFloat (Fin (5404319552844595 / 18014398509481984))),
            (''weight_coefficient'', JFloat (Fin (3602879701896397 / 9007199254740992))),
            (''base_cost'', JFloat (Fin 4.0)),
            (''updated_at'', JStr ''2026-01-01T00:00:00'')])])"
  using
    update_coefficients_validation
      [where float = "map_of [(''-1'', Fin (- 1)), (''0.5'', Fin 0.5), (''5'', Fin 5),
               (''0.3'', Fin (5404319552844595 / 18014398509481984)),
               (''0.4'', Fin (3602879701896397 / 9007199254740992)), (''4.0'', Fin 4)]"
         and now = 9 and db = "fst (init_db_command 7 None)"
         and form = "[(''distance_coefficient'', ''-1''), (''weight_coefficient'', ''0.5''),
                      (''base_cost'', ''5'')]"]
    update_coefficients_validation
      [where float = "map_of [(''-1'', Fin (- 1)), (''0.5'', Fin 0.5), (''5'', Fin 5),
               (''0.3'', Fin (5404319552844595 / 18014398509481984)),
               (''0.4'', Fin (3602879701896397 / 9007199254740992)), (''4.0'', Fin 4)]"
         and now = 9 and db = "fst (init_db_command 7 None)"
         and form = "[(''distance_coefficient'', ''0.3''), (''weight_coefficient'', ''abc''),
                      (''base_cost'', ''5'')]"]
    update_coefficients_validation
      [where float = "map_of [(''-1'', Fin (- 1)), (''0.5'', Fin 0.5), (''5'', Fin 5),
               (''0.3'', Fin (5404319552844595 / 18014398509481984)),
               (''0.4'', Fin (3602879701896397 / 9007199254740992)), (''4.0'', Fin 4)]"
         and now = 9 and db = "fst (init_db_command 7 None)"
         and form = "[(''distance_coefficient'', ''0.3''), (''weight_coefficient'', ''0.4''),
                      (''base_cost'', ''4.0'')]"
         and dc = "Fin (5404319552844595 / 18014398509481984)"
         and wc = "Fin (3602879701896397 / 9007199254740992)" and bc = "Fin 4"
         and t = "\<lparr>delivery_coefficients =
             [\<lparr>coefficients_id = 1, distance_coefficient = Fin 0.5,
               weight_coefficient = Fin 0.5, base_cost = Fin 5, updated_at = 7\<rparr>],
           contact_submissions = [], delivery_calculations = []\<rparr>"
         and isoformat = "\<lambda>t. ''2026-01-01T00:00:00''"]
  by (simp add: form_float_def init_db_command_fresh)

section \<open>Properties of the listings\<close>

lemma length_order_by_desc: "length (order_by_desc col rows) = length rows"
  by (simp add: order_by_desc_def)

lemma mset_order_by_desc: "mset (order_by_desc col rows) = mset rows"
  by (simp add: order_by_desc_def)

lemma sorted_order_by_desc: "sorted (map (\<lambda>r. - int (col r)) (order_by_desc col rows))"
  by (simp add: order_by_desc_def)

lemma order_by_desc_nth:
  assumes "i \<le> j" and "j < length rows"
  shows "col (order_by_desc col rows ! j) \<le> col (order_by_desc col rows ! i)"
proof -
  let ?ys = "order_by_desc col rows"
  have "map (\<lambda>r. - int (col r)) ?ys ! i \<le> map (\<lambda>r. - int (col r)) ?ys ! j"
    using assms sorted_order_by_desc [of col rows]
    by (intro sorted_nth_mono) (simp_all add: length_order_by_desc)
  then show ?thesis
    using assms by (simp add: length_order_by_desc)
qed

lemma order_by_desc_split:
  assumes "a \<in> set (take n (order_by_desc col rows))"
    and "b \<in> set (drop n (order_by_desc col rows))"
  shows "col b \<le> col a"
proof -
  let ?ys = "order_by_desc col rows"
  have "sorted (map (\<lambda>r. - int (col r)) (take n ?ys) @ map (\<lambda>r. - int (col r)) (drop n ?ys))"
    using sorted_order_by_desc [of col rows]
    by (simp add: map_append [symmetric] del: map_append)
  then have "- int (col a) \<le> - int (col b)"
    using assms by (auto simp: sorted_append)
  then show ?thesis by simp
qed

text \<open>
  C7. With exactly 25 calculation rows, page 1 of the listing holds the first 20 rows of the
  table ordered by \<open>calculated_at\<close> descending, page 2 the remaining 5 and page 3 none,
  each as a rendered page and not an error; an absent page parameter is page 1. The
  ordered rows are the rows of the table, each at least as recent as those after it, so
  every row of page 1 is at least as recent as every row of page 2.
\<close>

theorem calculations_pagination:
  assumes "length (delivery_calculations t) = 25"
  shows "let ordered = order_by_desc calculated_at (delivery_calculations t) in
    admin_calculations (Some t) (Some 1) =
      Rendered ''calculations.html''
        (Calculations (Some \<lparr>items = take 20 ordered, page = 1, per_page = 20, total = 25\<rparr>))
        [] \<and>
    admin_calculations (Some t) None = admin_calculations (Some t) (Some 1) \<and>
    admin_calculations (Some t) (Some 2) =
      Rendered ''calculations.html''
        (Calculations (Some \<lparr>items = drop 20 ordered, page = 2, per_page = 20, total = 25\<rparr>))
        [] \<and>
    admin_calculations (Some t) (Some 3) =
      Rendered ''calculations.html''
        (Calculations (Some \<lparr>items = [], page = 3, per_page = 20, total = 25\<rparr>)) [] \<and>
    length (take 20 ordered) = 20 \<and> length (drop 20 ordered) = 5 \<and>
    mset (take 20 ordered) + mset (drop 20 ordered) = mset (delivery_calculations t) \<and>
    (\<forall>a\<in>set (take 20 ordered). \<forall>b\<in>set (drop 20 ordered).
       calculated_at b \<le> calculated_at a) \<and>
    (\<forall>i j. i \<le> j \<and> j < 25 \<longrightarrow> calculated_at (ordered ! j) \<le> calculated_at (ordered ! i))"
proof -
  let ?ys = "order_by_desc calculated_at (delivery_calculations t)"
  have len: "length ?ys = 25"
    using assms by (simp add: length_order_by_desc)
  have p1: "admin_calculations (Some t) (Some 1) =
      Rendered ''calculations.html''
        (Calculations (Some \<lparr>items = take 20 ?ys, page = 1, per_page = 20, total = 25\<rparr>)) []"
    by (simp add: admin_calculations_def query_def and_then_def paginate_def
        page_or_default_def len)
  have p0: "admin_calculations (Some t) None = admin_calculations (Some t) (Some 1)"
    by (simp add: admin_calculations_def query_def and_then_def page_or_default_def)
  have p2: "admin_calculations (Some t) (Some 2) =
      Rendered ''calculations.html''
        (Calculations (Some \<lparr>items = drop 20 ?ys, page = 2, per_page = 20, total = 25\<rparr>)) []"
    by (simp add: admin_calculations_def query_def and_then_def paginate_def
        page_or_default_def len)
  have p3: "admin_calculations (Some t) (Some 3) =
      Rendered ''calculations.html''
        (Calculations (Some \<lparr>items = [], page = 3, per_page = 20, total = 25\<rparr>)) []"
    by (simp add: admin_calculations_def query_def and_then_def paginate_def
        page_or_default_def len)
  have l: "length (take 20 ?ys) = 20" "length (drop 20 ?ys) = 5"
    by (simp_all add: len)
  have "mset (take 20 ?ys) + mset (drop 20 ?ys) = mset ?ys"
    by (simp add: mset_append [symmetric] del: mset_append)
  then have m: "mset (take 20 ?ys) + mset (drop 20 ?ys) = mset (delivery_calculations t)"
    by (simp add: mset_order_by_desc)
  have s: "\<forall>a\<in>set (take 20 ?ys). \<forall>b\<in>set (drop 20 ?ys). calculated_at b \<le> calculated_at a"
    by (blast intro: order_by_desc_split)
  have n: "\<forall>i j. i \<le> j \<and> j < 25 \<longrightarrow> calculated_at (?ys ! j) \<le> calculated_at (?ys ! i)"
    using assms by (auto intro: order_by_desc_nth)
  show ?thesis
    unfolding Let_def using p1 p0 p2 p3 l m s n by blast
qed

theorem calculations_pagination_witness:
  "admin_calculations
     (Some \<lparr>delivery_coefficients = [], contact_submissions = [],
        delivery_calculations =
          map (\<lambda>i. \<lparr>calculation_id = i, distance = Fin 1, weight = Fin 1,
                    calculated_cost = Fin 6,
                    calculated_at = 100 + i\<rparr>) [1..<26]\<rparr>) (Some 1) =
     Rendered ''calculations.html''
       (Calculations (Some \<lparr>items =
          map (\<lambda>i. \<lparr>calculation_id = i, distance = Fin 1, weight = Fin 1,
                    calculated_cost = Fin 6,
                    calculated_at = 100 + i\<rparr>) (rev [6..<26]),
          page = 1, per_page = 20, total = 25\<rparr>)) [] \<and>
   admin_calculations
     (Some \<lparr>delivery_coefficients = [], contact_submissions = [],
        delivery_calculations =
          map (\<lambda>i. \<lparr>calculation_id = i, distance = Fin 1, weight = Fin 1,
                    calculated_cost = Fin 6,
                    calculated_at = 100 + i\<rparr>) [1..<26]\<rparr>) (Some 2) =
     Rendered ''calculations.html''
       (Calculations (Some \<lparr>items =
          map (\<lambda>i. \<lparr>calculation_id = i, distance = Fin 1, weight = Fin 1,
                    calculated_cost = Fin 6,
                    calculated_at = 100 + i\<rparr>) (rev [1..<6]),
          page = 2, per_page = 20, total = 25\<rparr>)) [] \<and>
   admin_calculations
     (Some \<lparr>delivery_coefficients = [], contact_submissions = [],
        delivery_calculations =
          map (\<lambda>i. \<lparr>calculation_id = i, distance = Fin 1, weight = Fin 1,
                    calculated_cost = Fin 6,
                    calculated_at = 100 + i\<rparr>) [1..<26]\<rparr>) (Some 3) =
     Rendered ''calculations.html''
       (Calculations (Some \<lparr>items = [], page = 3, per_page = 20, total = 25\<rparr>)) []"
  using calculations_pagination
    [of "\<lparr>delivery_coefficients = [], contact_submissions = [],
        delivery_calculations =
          map (\<lambda>i. \<lparr>calculation_id = i, distance = Fin 1, weight = Fin 1,
                    calculated_cost = Fin 6,
                    calculated_at = 100 + i\<rparr>) [1..<26]\<rparr>"]
  by (simp add: Let_def order_by_desc_def upt_rec)

section \<open>The logs are append-only\<close>

lemma calculate_delivery_store:
  assumes "calculate_delivery now db rq = (db', resp)"
  shows "db' = db \<or>
    (\<exists>t r. db = Some t \<and> status resp = 200 \<and>
       db' = Some (t\<lparr>delivery_calculations := delivery_calculations t @ [r]\<rparr>))"
proof (cases "calculate_delivery_try now db rq")
  case (Inl e)
  with assms show ?thesis by (simp add: calculate_delivery_def)
next
  case (Inr r)
  with assms have "calculate_delivery_try now db rq = Inr (db', resp)"
    by (simp add: calculate_delivery_def)
  then show ?thesis
    by (fastforce simp: calculate_delivery_try_def and_then_Inr add_calculation_Inr Let_def
        split: if_splits option.splits)
qed

lemma add_submission_Inr: "add_submission now db n e p m = Inr (db', i) \<longleftrightarrow>
  (\<exists>t. db = Some t \<and> i = next_id (map submission_id (contact_submissions t)) \<and>
     db' = Some (t\<lparr>contact_submissions := contact_submissions t @
       [\<lparr>submission_id = i, name = n, email = e, phone = p, message = m,
         submitted_at = now\<rparr>]\<rparr>))"
  by (cases db) (auto simp: add_submission_def Let_def)

lemma submit_contact_store:
  assumes "submit_contact now db rq = (db', resp)"
  shows "db' = db \<or>
    (\<exists>t r. db = Some t \<and> status resp = 200 \<and>
       db' = Some (t\<lparr>contact_submissions := contact_submissions t @ [r]\<rparr>))"
proof (cases "submit_contact_try now db rq")
  case (Inl e)
  with assms show ?thesis by (simp add: submit_contact_def)
next
  case (Inr r)
  with assms have "submit_contact_try now db rq = Inr (db', resp)"
    by (simp add: submit_contact_def)
  then show ?thesis
    by (fastforce simp: submit_contact_try_def and_then_Inr add_submission_Inr
        split: if_splits prod.splits)
qed

lemma update_coefficients_store:
  assumes "update_coefficients float now db form = (db', resp)"
  shows "db' = db \<or>
    (\<exists>t cs. db = Some t \<and> db' = Some (t\<lparr>delivery_coefficients := cs\<rparr>))"
proof (cases "update_coefficients_try float now db form")
  case (Inl e)
  with assms show ?thesis by (simp add: update_coefficients_def)
next
  case (Inr r)
  with assms obtain fs where "update_coefficients_try float now db form = Inr (db', fs)"
    by (auto simp: update_coefficients_def split: prod.splits)
  then show ?thesis
    by (fastforce simp: update_coefficients_try_def and_then_Inr set_coefficients_def
        add_coefficients_def split: if_splits option.splits list.splits)
qed

text \<open>
  C8 as stated does not hold for every operation: the initialisation command drops the
  tables, and with them every stored submission and calculation.
\<close>

theorem init_db_counterexample:
  "fst (init_db_command 9
     (Some \<lparr>delivery_coefficients = [],
            contact_submissions =
              [\<lparr>submission_id = 1, name = ''Ann'', email = ''a@b.com'', phone = None,
                message = ''hi'', submitted_at = 3\<rparr>],
            delivery_calculations =
              [\<lparr>calculation_id = 1, distance = Fin 10, weight = Fin 2,
                calculated_cost = Fin 11, calculated_at = 4\<rparr>]\<rparr>)) =
   Some \<lparr>delivery_coefficients =
           [\<lparr>coefficients_id = 1, distance_coefficient = Fin 0.5,
             weight_coefficient = Fin 0.5, base_cost = Fin 5, updated_at = 9\<rparr>],
         contact_submissions = [], delivery_calculations = []\<rparr>"
  by (simp add: init_db_command_def create_all_def drop_all_def first_coefficients_def
      add_coefficients_def empty_tables_def next_id_def)

text \<open>
  C8, amended. No route of the application modifies or deletes a stored submission or
  calculation. A store without tables stays without tables. On a store with tables, the
  submissions are left as they were, or get one row appended by a contact submission
  answered with 200; the calculations are left as they were, or get one row appended by a
  delivery calculation answered with 200.
\<close>

theorem route_append_only:
  assumes "route float isoformat now db rq = (db', resp)"
  shows "(db = None \<longrightarrow> db' = None) \<and>
    (\<forall>t. db = Some t \<longrightarrow>
       (\<exists>t'. db' = Some t' \<and>
          (contact_submissions t' = contact_submissions t \<or>
           (\<exists>b r. rq = PostContact b \<and> status resp = 200 \<and>
                  contact_submissions t' = contact_submissions t @ [r])) \<and>
          (delivery_calculations t' = delivery_calculations t \<or>
           (\<exists>b r. rq = PostCalculateDelivery b \<and> status resp = 200 \<and>
                  delivery_calculations t' = delivery_calculations t @ [r]))))"
proof (cases rq)
  case (PostCalculateDelivery b)
  with assms have "calculate_delivery now db b = (db', resp)" by simp
  from calculate_delivery_store [OF this] PostCalculateDelivery show ?thesis by auto
next
  case (PostContact b)
  with assms have "submit_contact now db b = (db', resp)" by simp
  from submit_contact_store [OF this] PostContact show ?thesis by auto
next
  case (PostUpdateCoefficients form)
  with assms have "update_coefficients float now db form = (db', resp)" by simp
  from update_coefficients_store [OF this] show ?thesis by auto
qed (use assms in auto)

theorem route_append_only_witness:
  "fst (route Map.empty (\<lambda>t. ''2026-01-01T00:00:00'') 9 (fst (init_db_command 7 None))
     (PostCalculateDelivery (Inr (JDict [(''distance'', JInt 10), (''weight'', JInt 2)])))) =
   Some \<lparr>delivery_coefficients =
           [\<lparr>coefficients_id = 1, distance_coefficient = Fin 0.5,
             weight_coefficient = Fin 0.5, base_cost = Fin 5, updated_at = 7\<rparr>],
         contact_submissions = [],
         delivery_calculations =
           [\<lparr>calculation_id = 1, distance = Fin 10, weight = Fin 2,
             calculated_cost = Fin 11, calculated_at = 9\<rparr>]\<rparr> \<and>
   fst (route Map.empty (\<lambda>t. ''2026-01-01T00:00:00'') 9 None
     (PostContact (Inr (JDict [(''name'', JStr ''Ann''), (''email'', JStr ''a@b.com''),
        (''message'', JStr ''hi'')])))) = None"
proof -
  let ?a = "route Map.empty (\<lambda>t. ''2026-01-01T00:00:00'') 9 (fst (init_db_command 7 None))
     (PostCalculateDelivery (Inr (JDict [(''distance'', JInt 10), (''weight'', JInt 2)])))"
  let ?b = "route Map.empty (\<lambda>t. ''2026-01-01T00:00:00'') 9 None
     (PostContact (Inr (JDict [(''name'', JStr ''Ann''), (''email'', JStr ''a@b.com''),
        (''message'', JStr ''hi'')])))"
  have a: "?a = (fst ?a, snd ?a)" and b: "?b = (fst ?b, snd ?b)"
    by simp_all
  have c: "fst ?a = Some \<lparr>delivery_coefficients =
           [\<lparr>coefficients_id = 1, distance_coefficient = Fin 0.5,
             weight_coefficient = Fin 0.5, base_cost = Fin 5, updated_at = 7\<rparr>],
         contact_submissions = [],
         delivery_calculations =
           [\<lparr>calculation_id = 1, distance = Fin 10, weight = Fin 2,
             calculated_cost = Fin 11, calculated_at = 9\<rparr>]\<rparr>"
    by (simp add: init_db_command_fresh calculate_delivery_def calculate_delivery_try_def
        and_then_def not_positive_def first_coefficients_def float_of_int_10
        float_of_int_2 add_calculation_def Let_def next_id_def cost_example_ten)
  from route_append_only [OF b] have "fst ?b = None"
    by simp
  with c route_append_only [OF a] show ?thesis
    by simp
qed

end
